theory Spec2Isabelle
  imports Main
begin

section \<open>Values stored in task documents\<close>

text \<open>
  The handlers build their per-photo results as Python dicts with string keys. A dict is
  an association list here, in the order the literal gives the keys; every literal of the
  source has distinct keys. \<open>JDec m k\<close> is the decimal \<open>m / 10 ^ k\<close> (the float literals
  of the adjustment table).
\<close>

datatype jval =
    JNone
  | JBool bool
  | JInt int
  | JDec int nat
  | JStr string
  | JDict "(string \<times> jval) list"

type_synonym pydict = "(string \<times> jval) list"

text \<open>\<open>d.get(k)\<close>: the value stored under the key, \<open>None\<close> when the key is absent.\<close>

definition dget :: "pydict \<Rightarrow> string \<Rightarrow> jval" where
  "dget d k = (case map_of d k of None \<Rightarrow> JNone | Some v \<Rightarrow> v)"

text \<open>\<open>k in d\<close>.\<close>

definition has_key :: "pydict \<Rightarrow> string \<Rightarrow> bool" where
  "has_key d k = (map_of d k \<noteq> None)"

text \<open>Python truthiness of a stored value (\<open>if v\<close>, \<open>not v\<close>).\<close>

fun truthy :: "jval \<Rightarrow> bool" where
  "truthy JNone = False"
| "truthy (JBool b) = b"
| "truthy (JInt n) = (n \<noteq> 0)"
| "truthy (JDec m k) = (m \<noteq> 0)"
| "truthy (JStr s) = (s \<noteq> [])"
| "truthy (JDict d) = (d \<noteq> [])"

text \<open>\<open>s.startswith(p)\<close>.\<close>

fun startswith :: "string \<Rightarrow> string \<Rightarrow> bool" where
  "startswith s [] = True"
| "startswith [] (p # ps) = False"
| "startswith (c # cs) (p # ps) = (c = p \<and> startswith cs ps)"

text \<open>\<open>s.rstrip("/")\<close>.\<close>

definition rstrip_slash :: "string \<Rightarrow> string" where
  "rstrip_slash s = rev (dropWhile (\<lambda>c. c = CHR ''/'') (rev s))"

text \<open>\<open>os.path.basename(p)\<close> on POSIX: everything after the last slash.\<close>

definition basename :: "string \<Rightarrow> string" where
  "basename p = rev (takeWhile (\<lambda>c. c \<noteq> CHR ''/'') (rev p))"

text \<open>
  \<open>os.path.splitext(p)[0]\<close> on POSIX: the path up to the last dot of its last component,
  when that dot has a character other than a dot before it in the component; the whole
  path otherwise.
\<close>

definition splitext_root :: "string \<Rightarrow> string" where
  "splitext_root p =
     (let base = basename p in
      if CHR ''.'' \<in> set base then
        (let ext = rev (takeWhile (\<lambda>c. c \<noteq> CHR ''.'') (rev base));
             stem = take (length base - length ext - 1) base
         in if list_ex (\<lambda>c. c \<noteq> CHR ''.'') stem
            then take (length p - length ext - 1) p
            else p)
      else p)"

text \<open>Decimal rendering of a length in an f-string.\<close>

fun str_nat :: "nat \<Rightarrow> string" where
  "str_nat n =
     (if n < 10 then [''0123456789'' ! n]
      else str_nat (n div 10) @ [''0123456789'' ! (n mod 10)])"

declare str_nat.simps [simp del]

section \<open>Tasks and the task store\<close>

datatype oid = ObjectId nat

record log_entry =
  timestamp :: string
  agent :: string
  action :: string
  thought :: string

text \<open>
  A task document. \<open>status\<close>, \<open>workflow_step\<close>, \<open>sku_code\<close> and the two result arrays are
  \<open>None\<close> while the document has no such key. \<open>photo_urls\<close> is \<open>metadata.photo_urls\<close>
  and \<open>agent_log\<close> the audit array: the source reads both with the default \<open>[]\<close> and
  appends with \<open>$push\<close>, which creates a missing array, so a missing array is the empty
  one. \<open>retry_metadata_count\<close> and \<open>retry_metadata_last_error\<close> are
  \<open>retry_metadata.count\<close> and \<open>retry_metadata.last_error\<close>;
  \<open>$inc\<close> on a missing counter starts from 0.
\<close>

record task =
  status :: "string option"
  workflow_step :: "int option"
  sku_code :: "string option"
  product_name :: string
  country :: string
  photo_urls :: "string list"
  agent_log :: "log_entry list"
  retry_metadata_count :: int
  retry_metadata_last_error :: "string option"
  color_analysis :: "pydict list option"
  wordpress_publish_results :: "pydict list option"

text \<open>The collection \<open>db.tasks\<close>, in insertion order.\<close>

type_synonym store = "(oid \<times> task) list"

text \<open>\<open>db.tasks.find_one({"_id": task_id})\<close>.\<close>

definition find_one_id :: "store \<Rightarrow> oid \<Rightarrow> task option" where
  "find_one_id db task_id = map_of db task_id"


text \<open>
  \<open>db.tasks.update_one({"_id": task_id}, upd)\<close>: the update is applied to the first
  document with that id; a store without such a document is left as it is.
\<close>

fun update_one :: "store \<Rightarrow> oid \<Rightarrow> (task \<Rightarrow> task) \<Rightarrow> store" where
  "update_one [] task_id upd = []"
| "update_one ((i, t) # db) task_id upd =
     (if i = task_id then (i, upd t) # db else (i, t) # update_one db task_id upd)"

section \<open>The world outside the orchestration\<close>

text \<open>What the WordPress media endpoint answers to one upload.\<close>

datatype wp_reply =
    PostRaised string
    \<comment> \<open>reading the file or \<open>requests.post\<close> raised; the text is \<open>str(e)\<close>\<close>
  | PostReply int string "string + pydict"
    \<comment> \<open>status code, \<open>response.text\<close>, and \<open>response.json()\<close>: the decoded object, or
        the text of the exception that decoding (or \<open>.get\<close> on a non-object) raised\<close>

text \<open>
  What one run of the image pipeline on a file does: it saves the corrected file, or it
  raises, and then the flag says whether \<open>img.save\<close> had already created the corrected
  file.
\<close>

datatype pil_outcome = Saved | Raised bool

text \<open>
  Everything a handler consults outside its arguments, fixed for one invocation: the
  file system as the invocation finds it, the image library, the media endpoint, the
  process environment, the clock and whether the store accepts each call.
\<close>

record env =
  path_exists :: "string \<Rightarrow> bool"
    \<comment> \<open>\<open>os.path.exists\<close> when the invocation starts\<close>
  abspath :: "string \<Rightarrow> string"
    \<comment> \<open>\<open>os.path.abspath\<close>\<close>
  pil_process :: "string \<Rightarrow> pydict \<Rightarrow> pil_outcome"
    \<comment> \<open>\<open>Image.open\<close>, the enhancers and \<open>img.save\<close> on an existing file\<close>
  getenv :: "string \<Rightarrow> string option"
    \<comment> \<open>\<open>os.getenv\<close>\<close>
  wp_post :: "string \<Rightarrow> wp_reply"
    \<comment> \<open>the HTTP exchange for the file at a path\<close>
  exotic_path :: "jval \<Rightarrow> string option"
    \<comment> \<open>\<open>os.path.exists(v)\<close> then \<open>Path(v)\<close> on a truthy value that is no string:
        \<open>None\<close> when \<open>exists\<close> answers false, else the text of the \<open>TypeError\<close>\<close>
  now :: string
    \<comment> \<open>\<open>datetime.now(timezone.utc).isoformat()\<close>\<close>
  new_oid :: oid
    \<comment> \<open>the next \<open>ObjectId()\<close>\<close>
  db_find_error :: "string option"
    \<comment> \<open>the exception text when \<open>find_one\<close> raises\<close>
  db_insert_error :: "string option"
    \<comment> \<open>the exception text when \<open>insert_one\<close> raises\<close>
  db_update_error :: "string option"
    \<comment> \<open>the exception text when the committing \<open>update_one\<close> raises\<close>
  db_retry_error :: "string option"
    \<comment> \<open>the exception text when the \<open>retry_metadata\<close> update raises\<close>

section \<open>Agent 2A: colour correction\<close>

text \<open>The adjustment table of \<open>color_correct_agent\<close>.\<close>

definition adjustments_2a :: pydict where
  "adjustments_2a =
     [(''brightness'', JDec 105 2), (''contrast'', JDec 11 1),
      (''saturation'', JDec 115 2), (''sharpness'', JDec 12 1)]"

text \<open>The default table of \<open>apply_color_corrections\<close>.\<close>

definition default_adjustments :: pydict where
  "default_adjustments =
     [(''brightness'', JDec 10 1), (''contrast'', JDec 11 1),
      (''saturation'', JDec 115 2), (''sharpness'', JDec 12 1)]"

text \<open>
  The files a handler run sees: those present when it started and those its own
  \<open>img.save\<close> calls have written since.
\<close>

definition file_exists :: "env \<Rightarrow> string list \<Rightarrow> string \<Rightarrow> bool" where
  "file_exists e written p = (path_exists e p \<or> p \<in> set written)"

text \<open>
  \<open>apply_color_corrections\<close>: \<open>None\<close> when the file is missing or anything in the image
  pipeline raises, else the path of the corrected file beside the original; and the
  files written so far, the corrected file now among them when \<open>img.save\<close> created it.
\<close>

definition apply_color_corrections ::
  "env \<Rightarrow> string list \<Rightarrow> string \<Rightarrow> pydict \<Rightarrow> string option \<times> string list" where
  "apply_color_corrections e written image_path adjustments =
     (if \<not> file_exists e written image_path then (None, written)
      else
        (let adjustments' = (if adjustments = [] then default_adjustments else adjustments);
             corrected_path = splitext_root image_path @ ''_color_corrected.jpg''
         in case pil_process e image_path adjustments' of
              Saved \<Rightarrow> (Some corrected_path, written @ [corrected_path])
            | Raised created \<Rightarrow>
                (None, if created then written @ [corrected_path] else written)))"

text \<open>The test that sends a photo reference to the local branch.\<close>

definition is_local_ref :: "string \<Rightarrow> bool" where
  "is_local_ref photo_url = (startswith photo_url ''/'' \<or> startswith photo_url ''file://'')"

text \<open>
  \<open>client.messages.create(...)\<close>, with \<open>Inr\<close> for the analysis text of a response and
  \<open>Inl\<close> for the text of an exception. \<open>client\<close> is \<open>OpenAI()\<close> (line 19), a class
  without an attribute \<open>messages\<close>: the attribute access raises \<open>AttributeError\<close> before
  any request is made, for every photo.
\<close>

definition client_messages_create :: "string \<Rightarrow> string + string" where
  "client_messages_create photo_url =
     Inl ([CHR 0x27] @ ''OpenAI'' @ [CHR 0x27] @ '' object has no attribute ''
          @ [CHR 0x27] @ ''messages'' @ [CHR 0x27])"

text \<open>
  The body of the per-photo loop, with its \<open>try\<close>/\<open>except\<close>: the entry appended, and
  the files written so far.
\<close>

definition analyze_photo ::
  "env \<Rightarrow> string list \<Rightarrow> nat \<Rightarrow> string \<Rightarrow> pydict \<times> string list" where
  "analyze_photo e written idx photo_url =
     (if is_local_ref photo_url then
        (let (corrected_path, written') =
               apply_color_corrections e written photo_url adjustments_2a
         in ([(''photo_index'', JInt (int idx + 1)),
              (''file_path'', JStr photo_url),
              (''corrected_path'',
                 (case corrected_path of None \<Rightarrow> JNone | Some p \<Rightarrow> JStr p)),
              (''color_correction_analysis'',
                 JStr ''Applied color corrections: brightness +5%, contrast +10%, saturation +15%, sharpness +20%''),
              (''suggested_adjustments'', JDict adjustments_2a),
              (''status'',
                 JStr (if (case corrected_path of None \<Rightarrow> False | Some p \<Rightarrow> p \<noteq> [])
                       then ''completed'' else ''failed''))],
             written'))
      else
        (case client_messages_create photo_url of
           Inr rtext \<Rightarrow>
             ([(''photo_index'', JInt (int idx + 1)),
               (''photo_url'', JStr photo_url),
               (''color_correction_analysis'', JStr rtext),
               (''model_used'', JStr ''gpt-4o-vision'')], written)
         | Inl err \<Rightarrow>
             ([(''photo_index'', JInt (int idx + 1)),
               (''photo_url'', JStr photo_url),
               (''error'', JStr err)], written)))"

text \<open>
  \<open>for idx, photo_url in enumerate(photo_urls)\<close>, appending to \<open>vision_results\<close>; the
  second component is the files written so far.
\<close>

fun vision_loop ::
  "env \<Rightarrow> nat \<Rightarrow> string list \<Rightarrow> pydict list \<times> string list \<Rightarrow> pydict list \<times> string list"
where
  "vision_loop e idx [] acc = acc"
| "vision_loop e idx (photo_url # rest) (vision_results, written) =
     (let (analysis, written') = analyze_photo e written idx photo_url
      in vision_loop e (Suc idx) rest (vision_results @ [analysis], written'))"

text \<open>
  The \<open>except\<close> branch shared by both handlers: record the error text and count the
  retry; when that write raises too, the failure is only logged.
\<close>

definition record_failure :: "env \<Rightarrow> store \<Rightarrow> oid \<Rightarrow> string \<Rightarrow> store" where
  "record_failure e db task_id err =
     (case db_retry_error e of
        None \<Rightarrow>
          update_one db task_id
            (\<lambda>t. t\<lparr>retry_metadata_last_error := Some err,
                   retry_metadata_count := retry_metadata_count t + 1\<rparr>)
      | Some e2 \<Rightarrow> db)"

text \<open>The audit entry of the colour-correction handler.\<close>

definition color_log_entry :: "env \<Rightarrow> string list \<Rightarrow> log_entry" where
  "color_log_entry e urls =
     \<lparr>timestamp = now e,
      agent = ''color_correct_agent_2a'',
      action = ''color_correction_completed'',
      thought = ''Processed '' @ str_nat (length urls)
                @ '' photos for color correction using GPT-4o Vision''\<rparr>"

definition color_correct_agent :: "env \<Rightarrow> store \<Rightarrow> oid \<Rightarrow> task \<Rightarrow> store" where
  "color_correct_agent e db task_id task_data =
     (let vision_results = fst (vision_loop e 0 (photo_urls task_data) ([], []));
          agent_log_entry = color_log_entry e (photo_urls task_data)
      in case db_update_error e of
           None \<Rightarrow>
             update_one db task_id
               (\<lambda>t. t\<lparr>status := Some ''COLOR_CORRECTED'',
                      workflow_step := Some 2,
                      color_analysis := Some vision_results,
                      agent_log := agent_log t @ [agent_log_entry]\<rparr>)
         | Some err \<Rightarrow> record_failure e db task_id err)"

section \<open>Agent 2B: WordPress publishing\<close>

text \<open>The module-level configuration, read from the process environment.\<close>

definition WORDPRESS_URL :: "env \<Rightarrow> string" where
  "WORDPRESS_URL e =
     rstrip_slash (case getenv e ''WORDPRESS_URL'' of None \<Rightarrow> [] | Some s \<Rightarrow> s)"

definition WORDPRESS_USER :: "env \<Rightarrow> string" where
  "WORDPRESS_USER e = (case getenv e ''WORDPRESS_USER'' of None \<Rightarrow> [] | Some s \<Rightarrow> s)"

definition WORDPRESS_PASSWORD :: "env \<Rightarrow> string" where
  "WORDPRESS_PASSWORD e =
     (case getenv e ''WORDPRESS_PASSWORD'' of None \<Rightarrow> [] | Some s \<Rightarrow> s)"

text \<open>
  \<open>upload_to_wordpress\<close>, which returns a dict and never raises. The file name it sends is
  a function of the path and reaches only the request, so the reply is keyed by the path.
\<close>

definition upload_to_wordpress :: "env \<Rightarrow> string \<Rightarrow> pydict" where
  "upload_to_wordpress e file_path =
     (if \<not> path_exists e file_path then
        [(''success'', JBool False), (''error'', JStr (''File not found: '' @ file_path))]
      else
        (case wp_post e file_path of
           PostRaised err \<Rightarrow> [(''success'', JBool False), (''error'', JStr err)]
         | PostReply status_code text body \<Rightarrow>
             if status_code = 200 \<or> status_code = 201 then
               (case body of
                  Inl err \<Rightarrow> [(''success'', JBool False), (''error'', JStr err)]
                | Inr media_data \<Rightarrow>
                    [(''success'', JBool True),
                     (''media_id'', dget media_data ''id''),
                     (''media_url'', dget media_data ''source_url''),
                     (''status_code'', JInt status_code)])
             else
               [(''success'', JBool False),
                (''status_code'', JInt status_code),
                (''error'', JStr (if text \<noteq> [] then take 200 text else ''Unknown error''))]))"

text \<open>The entry for a photo without a usable corrected file.\<close>

definition not_found_entry :: "nat \<Rightarrow> pydict" where
  "not_found_entry idx =
     [(''photo_index'', JInt (int idx + 1)),
      (''status'', JStr ''failed''),
      (''reason'', JStr ''Corrected image not found'')]"

text \<open>The entry written for every photo when the credentials are not configured.\<close>

definition skipped_entry :: "nat \<Rightarrow> pydict" where
  "skipped_entry idx =
     [(''photo_index'', JInt (int idx + 1)),
      (''status'', JStr ''skipped''),
      (''reason'', JStr ''WordPress credentials not fully configured'')]"

text \<open>
  The body of the publishing loop with its \<open>try\<close>/\<open>except\<close>: the entry appended, and the
  paths \<open>upload_to_wordpress\<close> was called on (none or one).
\<close>

definition publish_photo :: "env \<Rightarrow> nat \<Rightarrow> pydict \<Rightarrow> pydict \<times> string list" where
  "publish_photo e idx analysis =
     (case dget analysis ''corrected_path'' of
        JStr corrected_path \<Rightarrow>
          if corrected_path = [] \<or> \<not> path_exists e corrected_path then
            (not_found_entry idx, [])
          else
            (let result = upload_to_wordpress e corrected_path in
             (if truthy (dget result ''success'') then
                [(''photo_index'', JInt (int idx + 1)),
                 (''status'', JStr ''published''),
                 (''media_id'', dget result ''media_id''),
                 (''media_url'', dget result ''media_url''),
                 (''file_path'', JStr corrected_path)]
              else
                [(''photo_index'', JInt (int idx + 1)),
                 (''status'', JStr ''failed''),
                 (''error'', dget result ''error''),
                 (''status_code'', dget result ''status_code'')],
              [corrected_path]))
      | v \<Rightarrow>
          if \<not> truthy v then (not_found_entry idx, [])
          else
            (case exotic_path e v of
               None \<Rightarrow> (not_found_entry idx, [])
             | Some err \<Rightarrow>
                 ([(''photo_index'', JInt (int idx + 1)),
                   (''status'', JStr ''failed''),
                   (''error'', JStr err)], [])))"

text \<open>\<open>for idx, analysis in enumerate(color_analysis)\<close>, appending to \<open>publish_results\<close>.\<close>

fun publish_loop ::
  "env \<Rightarrow> nat \<Rightarrow> pydict list \<Rightarrow> pydict list \<times> string list \<Rightarrow> pydict list \<times> string list"
where
  "publish_loop e idx [] acc = acc"
| "publish_loop e idx (analysis # rest) (publish_results, uploads) =
     (let (entry, called) = publish_photo e idx analysis
      in publish_loop e (Suc idx) rest (publish_results @ [entry], uploads @ called))"

text \<open>\<open>r.get('status') == 'published'\<close>.\<close>

definition is_published :: "pydict \<Rightarrow> bool" where
  "is_published r = (dget r ''status'' = JStr ''published'')"

text \<open>The results of one batch and the upload calls it made.\<close>

definition publish_batch :: "env \<Rightarrow> pydict list \<Rightarrow> pydict list \<times> string list" where
  "publish_batch e analyses =
     (if WORDPRESS_URL e = [] \<or> WORDPRESS_USER e = [] \<or> WORDPRESS_PASSWORD e = [] then
        (map skipped_entry [0..<length analyses], [])
      else publish_loop e 0 analyses ([], []))"

text \<open>\<open>task_data.get("color_analysis", [])\<close>.\<close>

definition get_color_analysis :: "task \<Rightarrow> pydict list" where
  "get_color_analysis task_data =
     (case color_analysis task_data of None \<Rightarrow> [] | Some ca \<Rightarrow> ca)"

text \<open>The audit entry of the publishing handler.\<close>

definition publish_log_entry :: "env \<Rightarrow> pydict list \<Rightarrow> log_entry" where
  "publish_log_entry e publish_results =
     \<lparr>timestamp = now e,
      agent = ''wordpress_publish_agent_2b'',
      action = ''wordpress_publish_completed'',
      thought = ''Published '' @ str_nat (length (filter is_published publish_results))
                @ '' photos to WordPress''\<rparr>"

text \<open>\<open>publish_to_wordpress\<close>: the store afterwards and the upload calls made.\<close>

definition publish_to_wordpress :: "env \<Rightarrow> store \<Rightarrow> oid \<Rightarrow> task \<Rightarrow> store \<times> string list" where
  "publish_to_wordpress e db task_id task_data =
     (let (publish_results, uploads) = publish_batch e (get_color_analysis task_data);
          agent_log_entry = publish_log_entry e publish_results;
          next_status =
            (if list_ex is_published publish_results
             then ''WORDPRESS_PUBLISHED'' else ''PUBLISH_FAILED'')
      in (case db_update_error e of
            None \<Rightarrow>
              update_one db task_id
                (\<lambda>t. t\<lparr>status := Some next_status,
                       workflow_step := Some 3,
                       wordpress_publish_results := Some publish_results,
                       agent_log := agent_log t @ [agent_log_entry]\<rparr>)
          | Some err \<Rightarrow> record_failure e db task_id err,
          uploads))"

section \<open>The dispatcher\<close>

datatype handler = Agent2A | Agent2B

text \<open>The status that the dispatcher's \<open>if\<close>/\<open>elif\<close> chain routes to each handler.\<close>

fun trigger :: "handler \<Rightarrow> string" where
  "trigger Agent2A = ''PHOTOS_UPLOADED''"
| "trigger Agent2B = ''COLOR_CORRECTED''"

text \<open>
  A change event: \<open>change["documentKey"]["_id"]\<close> when present, and the operation type.
  Task ids are \<open>ObjectId\<close>s, which are never falsy, so \<open>not task_id\<close> is the absent id.
\<close>

record change =
  documentKey_id :: "oid option"
  operationType :: string

text \<open>
  The body of \<open>for change in stream\<close>: the store afterwards, the handler invoked if any,
  and the upload calls made. An exception of \<open>find_one\<close> is caught by the loop body's own
  \<open>except\<close>; the handlers catch their own.
\<close>

definition process_change ::
  "env \<Rightarrow> store \<Rightarrow> change \<Rightarrow> store \<times> handler option \<times> string list" where
  "process_change e db ch =
     (case documentKey_id ch of
        None \<Rightarrow> (db, None, [])
      | Some task_id \<Rightarrow>
          (case db_find_error e of
             Some err \<Rightarrow> (db, None, [])
           | None \<Rightarrow>
               (case find_one_id db task_id of
                  None \<Rightarrow> (db, None, [])
                | Some task \<Rightarrow>
                    (let current_status =
                           (case status task of None \<Rightarrow> ''UNKNOWN'' | Some s \<Rightarrow> s)
                     in if current_status = ''PHOTOS_UPLOADED'' then
                          (color_correct_agent e db task_id task, Some Agent2A, [])
                        else if current_status = ''COLOR_CORRECTED'' then
                          (let (db', uploads) = publish_to_wordpress e db task_id task
                           in (db', Some Agent2B, uploads))
                        else (db, None, [])))))"

section \<open>The upload step\<close>


section \<open>The worker loop\<close>

definition max_retries :: nat where
  "max_retries = 5"

text \<open>How one pass over an opened change stream ends.\<close>

datatype ending =
    Lost string      \<comment> \<open>the stream raised; the text is \<open>str(e)\<close>\<close>
  | Interrupted      \<comment> \<open>\<open>KeyboardInterrupt\<close>\<close>
  | Exhausted        \<comment> \<open>the stream ended without an exception\<close>

text \<open>
  One pass of the \<open>while\<close> loop as the outside world decides it: \<open>watch\<close> raises, or the
  stream opens, delivers some events (each in its own world) and ends.
\<close>

datatype attempt =
    WatchFailed string
  | Watched "(env \<times> change) list" ending

datatype loop_action =
    Sleep nat        \<comment> \<open>\<open>time.sleep(wait_time)\<close>\<close>
  | LogFatal         \<comment> \<open>the log line that the attempts are used up\<close>
  | LogStopping      \<comment> \<open>the log line of the interrupt\<close>

datatype loop_state =
    Running nat      \<comment> \<open>still in the loop, with this \<open>retry_count\<close>\<close>
  | ShutDown

text \<open>\<open>for change in stream\<close>.\<close>

fun process_changes :: "store \<Rightarrow> (env \<times> change) list \<Rightarrow> store" where
  "process_changes db [] = db"
| "process_changes db ((e, ch) # rest) = process_changes (fst (process_change e db ch)) rest"

text \<open>
  The \<open>while retry_count < max_retries\<close> loop over the passes the world provides. With
  the passes used up the loop is still running; the actions are its sleeps and its two
  final log lines, in order. An opened stream sets \<open>retry_count\<close> to 0 before its first
  event, so a stream lost later counts as the first failure.
\<close>

fun agent_loop :: "nat \<Rightarrow> store \<Rightarrow> attempt list \<Rightarrow> loop_action list \<times> store \<times> loop_state" where
  "agent_loop retry_count db [] =
     (if retry_count < max_retries then ([], db, Running retry_count) else ([], db, ShutDown))"
| "agent_loop retry_count db (WatchFailed err # rest) =
     (if \<not> retry_count < max_retries then ([], db, ShutDown)
      else
        (let retry_count' = retry_count + 1 in
         if retry_count' < max_retries then
           (let (acts, db', st) = agent_loop retry_count' db rest
            in (Sleep (2 ^ retry_count') # acts, db', st))
         else ([LogFatal], db, ShutDown)))"
| "agent_loop retry_count db (Watched events Interrupted # rest) =
     (if \<not> retry_count < max_retries then ([], db, ShutDown)
      else ([LogStopping], process_changes db events, ShutDown))"
| "agent_loop retry_count db (Watched events Exhausted # rest) =
     (if \<not> retry_count < max_retries then ([], db, ShutDown)
      else agent_loop 0 (process_changes db events) rest)"
| "agent_loop retry_count db (Watched events (Lost err) # rest) =
     (if \<not> retry_count < max_retries then ([], db, ShutDown)
      else
        (let retry_count' = 0 + 1 in
         if retry_count' < max_retries then
           (let (acts, db', st) = agent_loop retry_count' (process_changes db events) rest
            in (Sleep (2 ^ retry_count') # acts, db', st))
         else ([LogFatal], process_changes db events, ShutDown)))"

section \<open>Runs of the whole system\<close>





text \<open>
  The linear order of the states: the stage of a status, the two final states sharing the
  last stage.
\<close>

definition stage :: "string option \<Rightarrow> nat option" where
  "stage s =
     (if s = Some ''INITIATED'' then Some 0
      else if s = Some ''PHOTOS_UPLOADED'' then Some 1
      else if s = Some ''COLOR_CORRECTED'' then Some 2
      else if s = Some ''WORDPRESS_PUBLISHED'' \<or> s = Some ''PUBLISH_FAILED'' then Some 3
      else None)"





section \<open>Sample worlds and tasks\<close>

text \<open>
  A world in which \<open>/photos/a.jpg\<close> and its corrected copy exist, images are processed,
  WordPress is not configured and the store accepts every call.
\<close>

definition world0 :: env where
  "world0 =
     \<lparr>path_exists = (\<lambda>p. p = ''/photos/a.jpg'' \<or> p = ''/photos/a_color_corrected.jpg''),
      abspath = (\<lambda>p. ''/photos/'' @ p),
      pil_process = (\<lambda>p adj. Saved),
      getenv = (\<lambda>k. None),
      wp_post = (\<lambda>p. PostReply 201 []
                   (Inr [(''id'', JInt 7), (''source_url'', JStr ''https://shop.example/a.jpg'')])),
      exotic_path = (\<lambda>v. None),
      now = ''2026-01-01T00:00:00+00:00'',
      new_oid = ObjectId 1,
      db_find_error = None,
      db_insert_error = None,
      db_update_error = None,
      db_retry_error = None\<rparr>"

text \<open>The same world with the three WordPress settings present.\<close>

definition world_wp :: env where
  "world_wp =
     world0\<lparr>getenv :=
       [''WORDPRESS_URL'' \<mapsto> ''https://shop.example/'',
        ''WORDPRESS_USER'' \<mapsto> ''bot'',
        ''WORDPRESS_PASSWORD'' \<mapsto> ''secret'']\<rparr>"

text \<open>The same world with the store unreachable for every write.\<close>

definition world_down :: env where
  "world_down =
     world0\<lparr>db_update_error := Some ''ServerSelectionTimeoutError'',
            db_retry_error := Some ''ServerSelectionTimeoutError''\<rparr>"

text \<open>The same world where only the committing write fails.\<close>

definition world_commit_fails :: env where
  "world_commit_fails = world0\<lparr>db_update_error := Some ''WriteError''\<rparr>"



text \<open>
  The configured world with an endpoint that answers 200 with an empty object.
\<close>

definition world_wp_bare :: env where
  "world_wp_bare = world_wp\<lparr>wp_post := (\<lambda>p. PostReply 200 [] (Inr []))\<rparr>"

text \<open>A task with one existing and one missing local photo, waiting for Agent 2A.\<close>

definition task0 :: task where
  "task0 =
     \<lparr>status = Some ''PHOTOS_UPLOADED'',
      workflow_step = Some 1,
      sku_code = Some ''NIKE-USA-101'',
      product_name = ''Nike Running Shoe'',
      country = ''US'',
      photo_urls = [''/photos/a.jpg'', ''/photos/b.jpg''],
      agent_log = [],
      retry_metadata_count = 0,
      retry_metadata_last_error = None,
      color_analysis = None,
      wordpress_publish_results = None\<rparr>"

text \<open>A task after colour correction, with one entry whose corrected file exists.\<close>

definition task_corrected :: task where
  "task_corrected =
     task0\<lparr>status := Some ''COLOR_CORRECTED'',
           workflow_step := Some 2,
           photo_urls := [''/photos/a.jpg''],
           color_analysis := Some [fst (analyze_photo world0 [] 0 ''/photos/a.jpg'')]\<rparr>"

text \<open>
  A task with an existing local photo, a missing local photo and a remote photo, after
  colour correction in \<open>world0\<close>.
\<close>

definition mixed_urls :: "string list" where
  "mixed_urls = [''/photos/a.jpg'', ''/photos/b.jpg'', ''https://example.com/photo1.jpg'']"

definition task_mixed :: task where
  "task_mixed =
     task0\<lparr>status := Some ''COLOR_CORRECTED'',
           workflow_step := Some 2,
           photo_urls := mixed_urls,
           color_analysis := Some (fst (vision_loop world0 0 mixed_urls ([], [])))\<rparr>"


text \<open>The same task with an empty analysis array.\<close>

definition task_empty :: task where
  "task_empty = task_corrected\<lparr>photo_urls := [], color_analysis := Some []\<rparr>"

text \<open>A change event for the task with id 1.\<close>

definition change1 :: change where
  "change1 = \<lparr>documentKey_id = Some (ObjectId 1), operationType = ''update''\<rparr>"



section \<open>Facts about the store and the two loops\<close>

lemma map_of_update_one:
  "map_of (update_one db task_id upd) k =
     (if k = task_id then map_option upd (map_of db task_id) else map_of db k)"
  by (induction db task_id upd rule: update_one.induct) auto

lemma find_one_id_update_one:
  "find_one_id (update_one db task_id upd) k =
     (if k = task_id then map_option upd (find_one_id db task_id) else find_one_id db k)"
  by (simp add: find_one_id_def map_of_update_one)

lemma find_one_id_record_failure:
  "find_one_id (record_failure e db task_id err) k =
     (if k = task_id \<and> db_retry_error e = None
      then map_option (\<lambda>t. t\<lparr>retry_metadata_last_error := Some err,
                               retry_metadata_count := retry_metadata_count t + 1\<rparr>)
             (find_one_id db task_id)
      else find_one_id db k)"
  by (simp add: record_failure_def find_one_id_update_one split: option.splits)

lemma map_upt_Cons:
  "map (\<lambda>n. f (idx + n) ((a # as) ! n)) [0..<Suc (length as)]
     = f idx a # map (\<lambda>n. f (Suc idx + n) (as ! n)) [0..<length as]"
  by (simp add: upt_rec [of 0] map_Suc_upt [symmetric] del: upt_Suc)

text \<open>
  The colour-correction loop appends one entry per reference, each the loop body's entry
  for that reference at its position, for the files written by then.
\<close>

lemma vision_loop_entries:
  "\<exists>xs. fst (vision_loop e idx urls (acc, written)) = acc @ xs
        \<and> length xs = length urls
        \<and> (\<forall>n < length urls.
              \<exists>w. xs ! n = fst (analyze_photo e w (idx + n) (urls ! n)))"
proof (induction urls arbitrary: idx acc written)
  case Nil
  then show ?case by simp
next
  case (Cons u us)
  obtain a w1 where a: "analyze_photo e written idx u = (a, w1)"
    by (cases "analyze_photo e written idx u")
  from Cons.IH [of "Suc idx" "acc @ [a]" w1] obtain xs where
    xs: "fst (vision_loop e (Suc idx) us (acc @ [a], w1)) = (acc @ [a]) @ xs"
        "length xs = length us"
        "\<forall>n < length us. \<exists>w. xs ! n = fst (analyze_photo e w (Suc idx + n) (us ! n))"
    by blast
  have "\<exists>w. (a # xs) ! n = fst (analyze_photo e w (idx + n) ((u # us) ! n))"
    if "n < length (u # us)" for n
  proof (cases n)
    case 0
    with a show ?thesis by (metis fst_conv nth_Cons_0 add_0_right)
  next
    case (Suc m)
    with that xs(3) show ?thesis by simp
  qed
  with xs(1,2) a show ?case
    by (intro exI [of _ "a # xs"]) simp
qed

lemma length_vision_loop: "length (fst (vision_loop e 0 urls ([], []))) = length urls"
  using vision_loop_entries [of e 0 urls "[]" "[]"] by auto

lemma nth_vision_loop:
  "n < length urls \<Longrightarrow>
   \<exists>w. fst (vision_loop e 0 urls ([], [])) ! n = fst (analyze_photo e w n (urls ! n))"
  using vision_loop_entries [of e 0 urls "[]" "[]"] by auto

lemma publish_loop_append:
  "publish_loop e idx as (rs, ups) =
     (rs @ map (\<lambda>n. fst (publish_photo e (idx + n) (as ! n))) [0..<length as],
      ups @ concat (map (\<lambda>n. snd (publish_photo e (idx + n) (as ! n))) [0..<length as]))"
proof (induction as arbitrary: idx rs ups)
  case Nil
  then show ?case by simp
next
  case (Cons a as)
  obtain r c where rc: "publish_photo e idx a = (r, c)"
    by (cases "publish_photo e idx a")
  show ?case
    by (simp add: rc Cons.IH
          map_upt_Cons [of "\<lambda>i x. fst (publish_photo e i x)"]
          map_upt_Cons [of "\<lambda>i x. snd (publish_photo e i x)"] del: upt_Suc)
qed

lemma length_publish_batch: "length (fst (publish_batch e as)) = length as"
  by (simp add: publish_batch_def publish_loop_append)

lemma nth_publish_batch:
  "n < length as \<Longrightarrow>
   fst (publish_batch e as) ! n =
     (if WORDPRESS_URL e = [] \<or> WORDPRESS_USER e = [] \<or> WORDPRESS_PASSWORD e = []
      then skipped_entry n else fst (publish_photo e n (as ! n)))"
  by (simp add: publish_batch_def publish_loop_append)

lemma analyze_photo_index:
  "dget (fst (analyze_photo e w idx u)) ''photo_index'' = JInt (int idx + 1)"
  by (simp add: analyze_photo_def dget_def Let_def split: sum.splits prod.splits)

lemma analyze_photo_ref:
  "dget (fst (analyze_photo e w idx u)) ''file_path'' = JStr u
   \<or> dget (fst (analyze_photo e w idx u)) ''photo_url'' = JStr u"
  by (simp add: analyze_photo_def dget_def Let_def split: sum.splits prod.splits)

lemma publish_photo_index:
  "dget (fst (publish_photo e idx a)) ''photo_index'' = JInt (int idx + 1)"
  by (simp add: publish_photo_def dget_def Let_def not_found_entry_def
           split: jval.splits option.splits)

lemma skipped_entry_index: "dget (skipped_entry idx) ''photo_index'' = JInt (int idx + 1)"
  by (simp add: skipped_entry_def dget_def)

lemma skipped_entry_not_published: "\<not> is_published (skipped_entry idx)"
  by (simp add: skipped_entry_def is_published_def dget_def)

text \<open>A successful upload is a 200 or 201 reply with a decodable body.\<close>

lemma upload_to_wordpress_success:
  assumes "truthy (dget (upload_to_wordpress e p) ''success'')"
  shows "\<exists>code text media.
           wp_post e p = PostReply code text (Inr media) \<and> (code = 200 \<or> code = 201)
           \<and> path_exists e p
           \<and> upload_to_wordpress e p =
               [(''success'', JBool True), (''media_id'', dget media ''id''),
                (''media_url'', dget media ''source_url''), (''status_code'', JInt code)]"
proof (cases "path_exists e p")
  case False
  with assms show ?thesis by (simp add: upload_to_wordpress_def dget_def)
next
  case True
  show ?thesis
  proof (cases "wp_post e p")
    case (PostRaised err)
    with assms True show ?thesis by (simp add: upload_to_wordpress_def dget_def)
  next
    case (PostReply code rtext body)
    show ?thesis
    proof (cases body)
      case (Inl err)
      with assms True PostReply show ?thesis
        by (simp add: upload_to_wordpress_def dget_def split: if_splits)
    next
      case (Inr media)
      with assms True PostReply show ?thesis
        by (simp add: upload_to_wordpress_def dget_def split: if_splits)
    qed
  qed
qed

lemma not_found_entry_not_published: "\<not> is_published (not_found_entry idx)"
  by (simp add: not_found_entry_def is_published_def dget_def)

lemma publish_photo_JStr:
  "dget a ''corrected_path'' = JStr p \<Longrightarrow>
   publish_photo e idx a =
     (if p = [] \<or> \<not> path_exists e p then (not_found_entry idx, [])
      else (if truthy (dget (upload_to_wordpress e p) ''success'') then
              [(''photo_index'', JInt (int idx + 1)),
               (''status'', JStr ''published''),
               (''media_id'', dget (upload_to_wordpress e p) ''media_id''),
               (''media_url'', dget (upload_to_wordpress e p) ''media_url''),
               (''file_path'', JStr p)]
            else
              [(''photo_index'', JInt (int idx + 1)),
               (''status'', JStr ''failed''),
               (''error'', dget (upload_to_wordpress e p) ''error''),
               (''status_code'', dget (upload_to_wordpress e p) ''status_code'')],
            [p]))"
  by (simp add: publish_photo_def Let_def)

lemma publish_photo_other:
  "\<forall>p. dget a ''corrected_path'' \<noteq> JStr p \<Longrightarrow>
   publish_photo e idx a =
     (if \<not> truthy (dget a ''corrected_path'') then (not_found_entry idx, [])
      else (case exotic_path e (dget a ''corrected_path'') of
              None \<Rightarrow> (not_found_entry idx, [])
            | Some err \<Rightarrow>
                ([(''photo_index'', JInt (int idx + 1)),
                  (''status'', JStr ''failed''),
                  (''error'', JStr err)], [])))"
  by (cases "dget a ''corrected_path''") (simp_all add: publish_photo_def)

text \<open>What a published entry says about the photo it stands for.\<close>

lemma publish_photo_published:
  assumes "is_published (fst (publish_photo e idx a))"
  shows "\<exists>p code text media.
           dget a ''corrected_path'' = JStr p \<and> p \<noteq> [] \<and> path_exists e p
           \<and> wp_post e p = PostReply code text (Inr media) \<and> (code = 200 \<or> code = 201)
           \<and> snd (publish_photo e idx a) = [p]
           \<and> fst (publish_photo e idx a) =
               [(''photo_index'', JInt (int idx + 1)), (''status'', JStr ''published''),
                (''media_id'', dget media ''id''), (''media_url'', dget media ''source_url''),
                (''file_path'', JStr p)]"
proof (cases "\<exists>p. dget a ''corrected_path'' = JStr p")
  case False
  then have "\<not> is_published (fst (publish_photo e idx a))"
    by (simp add: publish_photo_other not_found_entry_def is_published_def dget_def
          split: option.splits)
  with assms show ?thesis by simp
next
  case True
  then obtain p where p: "dget a ''corrected_path'' = JStr p" by blast
  show ?thesis
  proof (cases "p = [] \<or> \<not> path_exists e p")
    case True
    with p have "\<not> is_published (fst (publish_photo e idx a))"
      by (simp add: publish_photo_JStr not_found_entry_not_published)
    with assms show ?thesis by simp
  next
    case ok: False
    show ?thesis
    proof (cases "truthy (dget (upload_to_wordpress e p) ''success'')")
      case False
      with p ok have "\<not> is_published (fst (publish_photo e idx a))"
        by (simp add: publish_photo_JStr is_published_def dget_def)
      with assms show ?thesis by simp
    next
      case True
      from upload_to_wordpress_success [OF True] obtain code rtext media where
        r: "wp_post e p = PostReply code rtext (Inr media)" "code = 200 \<or> code = 201"
           "upload_to_wordpress e p =
               [(''success'', JBool True), (''media_id'', dget media ''id''),
                (''media_url'', dget media ''source_url''), (''status_code'', JInt code)]"
        by blast
      have "fst (publish_photo e idx a) =
               [(''photo_index'', JInt (int idx + 1)), (''status'', JStr ''published''),
                (''media_id'', dget media ''id''), (''media_url'', dget media ''source_url''),
                (''file_path'', JStr p)]"
        using p ok True by (simp add: publish_photo_JStr) (simp add: r(3) dget_def)
      moreover have "snd (publish_photo e idx a) = [p]"
        using p ok by (simp add: publish_photo_JStr)
      ultimately show ?thesis using p ok r(1,2) by blast
    qed
  qed
qed

text \<open>The committing write of each handler, and its failure branch.\<close>

lemma color_correct_agent_commit:
  assumes "db_update_error e = None"
  shows "find_one_id (color_correct_agent e db task_id task_data) k =
           (if k = task_id
            then map_option
                   (\<lambda>t. t\<lparr>status := Some ''COLOR_CORRECTED'', workflow_step := Some 2,
                          color_analysis :=
                            Some (fst (vision_loop e 0 (photo_urls task_data) ([], []))),
                          agent_log := agent_log t @ [color_log_entry e (photo_urls task_data)]\<rparr>)
                   (find_one_id db task_id)
            else find_one_id db k)"
  using assms by (simp add: color_correct_agent_def find_one_id_update_one Let_def)

lemma color_correct_agent_failure:
  assumes "db_update_error e = Some err"
  shows "color_correct_agent e db task_id task_data = record_failure e db task_id err"
  using assms by (simp add: color_correct_agent_def Let_def)

lemma publish_to_wordpress_commit:
  assumes "db_update_error e = None"
  shows "find_one_id (fst (publish_to_wordpress e db task_id task_data)) k =
           (if k = task_id
            then map_option
                   (\<lambda>t. t\<lparr>status := Some (if list_ex is_published
                                               (fst (publish_batch e (get_color_analysis task_data)))
                                          then ''WORDPRESS_PUBLISHED'' else ''PUBLISH_FAILED''),
                          workflow_step := Some 3,
                          wordpress_publish_results :=
                            Some (fst (publish_batch e (get_color_analysis task_data))),
                          agent_log := agent_log t @
                            [publish_log_entry e
                               (fst (publish_batch e (get_color_analysis task_data)))]\<rparr>)
                   (find_one_id db task_id)
            else find_one_id db k)"
  using assms
  by (simp add: publish_to_wordpress_def find_one_id_update_one Let_def split: prod.splits)

lemma publish_to_wordpress_failure:
  assumes "db_update_error e = Some err"
  shows "fst (publish_to_wordpress e db task_id task_data) = record_failure e db task_id err"
  using assms by (simp add: publish_to_wordpress_def Let_def split: prod.splits)

lemma publish_to_wordpress_uploads:
  "snd (publish_to_wordpress e db task_id task_data)
     = snd (publish_batch e (get_color_analysis task_data))"
  by (simp add: publish_to_wordpress_def Let_def split: prod.splits)

section \<open>The claims\<close>

subsection \<open>Index alignment of the result arrays\<close>

text \<open>
  Claim C2. Both handlers keep their result array aligned with their input: when the
  committing write succeeds, \<open>color_analysis\<close> has one entry per photo reference, the
  \<open>n\<close>-th carrying the index \<open>n + 1\<close> and the \<open>n\<close>-th reference, and
  \<open>wordpress_publish_results\<close> has one entry per analysis entry, the \<open>n\<close>-th carrying
  the index \<open>n + 1\<close> and, when published, the corrected file of the \<open>n\<close>-th analysis
  entry; this whatever the per-photo outcomes are.
\<close>

theorem index_alignment:
  assumes "find_one_id db task_id = Some t" and "db_update_error e = None"
  shows "(\<exists>t' res.
            find_one_id (color_correct_agent e db task_id task_data) task_id = Some t'
            \<and> color_analysis t' = Some res
            \<and> length res = length (photo_urls task_data)
            \<and> (\<forall>n < length res.
                  dget (res ! n) ''photo_index'' = JInt (int n + 1)
                  \<and> (dget (res ! n) ''file_path'' = JStr (photo_urls task_data ! n)
                     \<or> dget (res ! n) ''photo_url'' = JStr (photo_urls task_data ! n))))
       \<and> (\<exists>t' res.
            find_one_id (fst (publish_to_wordpress e db task_id task_data)) task_id = Some t'
            \<and> wordpress_publish_results t' = Some res
            \<and> length res = length (get_color_analysis task_data)
            \<and> (\<forall>n < length res.
                  dget (res ! n) ''photo_index'' = JInt (int n + 1)
                  \<and> (is_published (res ! n) \<longrightarrow>
                       dget (get_color_analysis task_data ! n) ''corrected_path''
                         = dget (res ! n) ''file_path'')))"
proof (intro conjI)
  let ?res = "fst (vision_loop e 0 (photo_urls task_data) ([], []))"
  have "dget (?res ! n) ''photo_index'' = JInt (int n + 1)
          \<and> (dget (?res ! n) ''file_path'' = JStr (photo_urls task_data ! n)
             \<or> dget (?res ! n) ''photo_url'' = JStr (photo_urls task_data ! n))"
    if "n < length ?res" for n
  proof -
    from that have "n < length (photo_urls task_data)"
      by (simp add: length_vision_loop)
    from nth_vision_loop [OF this, of e] obtain w where
      "?res ! n = fst (analyze_photo e w n (photo_urls task_data ! n))"
      by blast
    then show ?thesis
      using analyze_photo_ref [of e w n "photo_urls task_data ! n"]
      by (simp add: analyze_photo_index)
  qed
  then show "\<exists>t' res.
            find_one_id (color_correct_agent e db task_id task_data) task_id = Some t'
            \<and> color_analysis t' = Some res
            \<and> length res = length (photo_urls task_data)
            \<and> (\<forall>n < length res.
                  dget (res ! n) ''photo_index'' = JInt (int n + 1)
                  \<and> (dget (res ! n) ''file_path'' = JStr (photo_urls task_data ! n)
                     \<or> dget (res ! n) ''photo_url'' = JStr (photo_urls task_data ! n)))"
    using assms by (simp add: color_correct_agent_commit length_vision_loop)
next
  let ?as = "get_color_analysis task_data"
  let ?res = "fst (publish_batch e ?as)"
  have idx: "dget (?res ! n) ''photo_index'' = JInt (int n + 1)" if "n < length ?as" for n
    using that by (simp add: nth_publish_batch skipped_entry_index publish_photo_index)
  have pub: "dget (?as ! n) ''corrected_path'' = dget (?res ! n) ''file_path''"
    if "n < length ?as" and "is_published (?res ! n)" for n
  proof -
    from that have p: "is_published (fst (publish_photo e n (?as ! n)))"
      by (simp add: nth_publish_batch skipped_entry_not_published split: if_splits)
    from that p have eq: "?res ! n = fst (publish_photo e n (?as ! n))"
      by (simp add: nth_publish_batch skipped_entry_not_published split: if_splits)
    from publish_photo_published [OF p] show ?thesis
      unfolding eq by (auto simp: dget_def)
  qed
  show "\<exists>t' res.
            find_one_id (fst (publish_to_wordpress e db task_id task_data)) task_id = Some t'
            \<and> wordpress_publish_results t' = Some res
            \<and> length res = length (get_color_analysis task_data)
            \<and> (\<forall>n < length res.
                  dget (res ! n) ''photo_index'' = JInt (int n + 1)
                  \<and> (is_published (res ! n) \<longrightarrow>
                       dget (get_color_analysis task_data ! n) ''corrected_path''
                         = dget (res ! n) ''file_path''))"
    using assms idx pub by (simp add: publish_to_wordpress_commit length_publish_batch)
qed

text \<open>
  The alignment at the sample task with three photos, WordPress configured. Colour
  correction completes the first photo, fails the second, whose file is missing, and
  records the error of the third, which is remote; publishing publishes the first entry
  and fails the other two. Both arrays carry the indices 1, 2, 3 in order and the
  references in their places.
\<close>

theorem index_alignment_witness:
  "find_one_id [(ObjectId 1, task_mixed)] (ObjectId 1) = Some task_mixed
   \<and> db_update_error world_wp = None
   \<and> photo_urls task_mixed
       = [''/photos/a.jpg'', ''/photos/b.jpg'', ''https://example.com/photo1.jpg'']
   \<and> map_option
        (map_option (map (\<lambda>r. (dget r ''photo_index'', dget r ''file_path'',
                                dget r ''photo_url'', dget r ''status'', has_key r ''error'')))
           \<circ> color_analysis)
        (find_one_id (color_correct_agent world_wp [(ObjectId 1, task_mixed)] (ObjectId 1)
                        task_mixed) (ObjectId 1))
      = Some (Some [(JInt 1, JStr ''/photos/a.jpg'', JNone, JStr ''completed'', False),
                    (JInt 2, JStr ''/photos/b.jpg'', JNone, JStr ''failed'', False),
                    (JInt 3, JNone, JStr ''https://example.com/photo1.jpg'', JNone, True)])
   \<and> map_option
        (map_option (map (\<lambda>r. (dget r ''photo_index'', dget r ''status'',
                                dget r ''file_path'')))
           \<circ> wordpress_publish_results)
        (find_one_id (fst (publish_to_wordpress world_wp [(ObjectId 1, task_mixed)]
                             (ObjectId 1) task_mixed)) (ObjectId 1))
      = Some (Some [(JInt 1, JStr ''published'', JStr ''/photos/a_color_corrected.jpg''),
                    (JInt 2, JStr ''failed'', JNone),
                    (JInt 3, JStr ''failed'', JNone)])
   \<and> (\<exists>t' res.
         find_one_id (color_correct_agent world_wp [(ObjectId 1, task_mixed)] (ObjectId 1)
                        task_mixed) (ObjectId 1) = Some t'
         \<and> color_analysis t' = Some res
         \<and> length res = length (photo_urls task_mixed)
         \<and> (\<forall>n < length res.
               dget (res ! n) ''photo_index'' = JInt (int n + 1)
               \<and> (dget (res ! n) ''file_path'' = JStr (photo_urls task_mixed ! n)
                  \<or> dget (res ! n) ''photo_url'' = JStr (photo_urls task_mixed ! n))))
   \<and> (\<exists>t' res.
         find_one_id (fst (publish_to_wordpress world_wp [(ObjectId 1, task_mixed)]
                             (ObjectId 1) task_mixed)) (ObjectId 1) = Some t'
         \<and> wordpress_publish_results t' = Some res
         \<and> length res = length (get_color_analysis task_mixed)
         \<and> (\<forall>n < length res.
               dget (res ! n) ''photo_index'' = JInt (int n + 1)
               \<and> (is_published (res ! n) \<longrightarrow>
                    dget (get_color_analysis task_mixed ! n) ''corrected_path''
                      = dget (res ! n) ''file_path'')))"
proof -
  have h1: "find_one_id [(ObjectId 1, task_mixed)] (ObjectId 1) = Some task_mixed"
    by (simp add: find_one_id_def)
  have h2: "db_update_error world_wp = None"
    by (simp add: world_wp_def world0_def)
  have u: "photo_urls task_mixed
       = [''/photos/a.jpg'', ''/photos/b.jpg'', ''https://example.com/photo1.jpg'']"
    by (simp add: task_mixed_def mixed_urls_def)
  have c: "map_option
        (map_option (map (\<lambda>r. (dget r ''photo_index'', dget r ''file_path'',
                                dget r ''photo_url'', dget r ''status'', has_key r ''error'')))
           \<circ> color_analysis)
        (find_one_id (color_correct_agent world_wp [(ObjectId 1, task_mixed)] (ObjectId 1)
                        task_mixed) (ObjectId 1))
      = Some (Some [(JInt 1, JStr ''/photos/a.jpg'', JNone, JStr ''completed'', False),
                    (JInt 2, JStr ''/photos/b.jpg'', JNone, JStr ''failed'', False),
                    (JInt 3, JNone, JStr ''https://example.com/photo1.jpg'', JNone, True)])"
    by code_simp
  have p: "map_option
        (map_option (map (\<lambda>r. (dget r ''photo_index'', dget r ''status'',
                                dget r ''file_path'')))
           \<circ> wordpress_publish_results)
        (find_one_id (fst (publish_to_wordpress world_wp [(ObjectId 1, task_mixed)]
                             (ObjectId 1) task_mixed)) (ObjectId 1))
      = Some (Some [(JInt 1, JStr ''published'', JStr ''/photos/a_color_corrected.jpg''),
                    (JInt 2, JStr ''failed'', JNone),
                    (JInt 3, JStr ''failed'', JNone)])"
    by code_simp
  from index_alignment [OF h1 h2, of task_mixed] h1 h2 u c p show ?thesis
    by blast
qed

subsection \<open>Batch failure\<close>

text \<open>
  Claim C3, as the code has it. When the committing write of a handler raises, the
  handler leaves the status, both result arrays and the audit log of the task as they
  were. It then tries one bookkeeping write: when that write succeeds,
  \<open>retry_metadata.count\<close> grows by exactly 1 and \<open>retry_metadata.last_error\<close> becomes
  the error text; when it raises as well, the failure is only logged and the task
  document is unchanged.
\<close>

theorem batch_failure_bookkeeping:
  assumes "find_one_id db task_id = Some t" and "db_update_error e = Some err"
  shows "(\<exists>t'. find_one_id (color_correct_agent e db task_id task_data) task_id = Some t'
            \<and> status t' = status t
            \<and> color_analysis t' = color_analysis t
            \<and> wordpress_publish_results t' = wordpress_publish_results t
            \<and> agent_log t' = agent_log t
            \<and> (if db_retry_error e = None
                then retry_metadata_count t' = retry_metadata_count t + 1
                     \<and> retry_metadata_last_error t' = Some err
                else t' = t))
       \<and> (\<exists>t'. find_one_id (fst (publish_to_wordpress e db task_id task_data)) task_id = Some t'
            \<and> status t' = status t
            \<and> color_analysis t' = color_analysis t
            \<and> wordpress_publish_results t' = wordpress_publish_results t
            \<and> agent_log t' = agent_log t
            \<and> (if db_retry_error e = None
                then retry_metadata_count t' = retry_metadata_count t + 1
                     \<and> retry_metadata_last_error t' = Some err
                else t' = t))"
  using assms
  by (simp add: color_correct_agent_failure publish_to_wordpress_failure
        find_one_id_record_failure)

text \<open>
  With only the committing write failing, the sample task keeps its status and has no
  result array, its counter goes from 0 to 1 and the error text is recorded.
\<close>

theorem batch_failure_bookkeeping_witness:
  "find_one_id [(ObjectId 1, task0)] (ObjectId 1) = Some task0
   \<and> db_update_error world_commit_fails = Some ''WriteError''
   \<and> db_retry_error world_commit_fails = None
   \<and> (\<exists>t'. find_one_id
               (color_correct_agent world_commit_fails [(ObjectId 1, task0)] (ObjectId 1) task0)
               (ObjectId 1) = Some t'
            \<and> status t' = Some ''PHOTOS_UPLOADED''
            \<and> color_analysis t' = None
            \<and> retry_metadata_count t' = 1
            \<and> retry_metadata_last_error t' = Some ''WriteError'')"
proof -
  have h1: "find_one_id [(ObjectId 1, task0)] (ObjectId 1) = Some task0"
    by (simp add: find_one_id_def)
  have h2: "db_update_error world_commit_fails = Some ''WriteError''"
    by (simp add: world_commit_fails_def world0_def)
  have h3: "db_retry_error world_commit_fails = None"
    by (simp add: world_commit_fails_def world0_def)
  have t0: "status task0 = Some ''PHOTOS_UPLOADED''" "color_analysis task0 = None"
    "retry_metadata_count task0 = 0"
    by (simp_all add: task0_def)
  from batch_failure_bookkeeping [OF h1 h2, of task0] h1 h2 h3 t0 show ?thesis
    by auto
qed

text \<open>
  Claim C3 as stated fails when the store is unreachable for the bookkeeping write too:
  the committing write of the colour-correction handler raises, and the counter of the
  task is still 0 afterwards.
\<close>

theorem batch_failure_counterexample:
  "db_update_error world_down = Some ''ServerSelectionTimeoutError''
   \<and> find_one_id [(ObjectId 1, task0)] (ObjectId 1) = Some task0
   \<and> retry_metadata_count task0 = 0
   \<and> map_option retry_metadata_count
        (find_one_id (color_correct_agent world_down [(ObjectId 1, task0)] (ObjectId 1) task0)
           (ObjectId 1)) = Some 0
   \<and> map_option retry_metadata_last_error
        (find_one_id (color_correct_agent world_down [(ObjectId 1, task0)] (ObjectId 1) task0)
           (ObjectId 1)) = Some None"
  by (simp add: color_correct_agent_def record_failure_def world_down_def world0_def
        find_one_id_def task0_def Let_def)


subsection \<open>The outcome of publishing\<close>

text \<open>
  Claim C4, as the code has it. When the committing write of the publishing handler
  succeeds, the task gets the status \<open>WORDPRESS_PUBLISHED\<close> if some entry of the written
  array is published and \<open>PUBLISH_FAILED\<close> otherwise, \<open>workflow_step\<close> 3, and exactly one
  more audit entry, whose text gives the number of published entries. A published entry
  stands for a corrected file whose upload was answered with 200 or 201, and it carries
  the keys \<open>media_id\<close> and \<open>media_url\<close> with what the answer has under \<open>id\<close> and
  \<open>source_url\<close>, which is \<open>None\<close> for a field the answer lacks.
\<close>

theorem publish_outcome:
  assumes "find_one_id db task_id = Some t" and "db_update_error e = None"
  shows "\<exists>t' res.
           find_one_id (fst (publish_to_wordpress e db task_id task_data)) task_id = Some t'
           \<and> wordpress_publish_results t' = Some res
           \<and> status t' = Some (if (\<exists>r \<in> set res. is_published r)
                                then ''WORDPRESS_PUBLISHED'' else ''PUBLISH_FAILED'')
           \<and> workflow_step t' = Some 3
           \<and> agent_log t' = agent_log t @
                [\<lparr>timestamp = now e,
                  agent = ''wordpress_publish_agent_2b'',
                  action = ''wordpress_publish_completed'',
                  thought = ''Published '' @ str_nat (length (filter is_published res))
                            @ '' photos to WordPress''\<rparr>]
           \<and> (\<forall>n < length res. is_published (res ! n) \<longrightarrow>
                 (\<exists>p code rtext media.
                    dget (get_color_analysis task_data ! n) ''corrected_path'' = JStr p
                    \<and> wp_post e p = PostReply code rtext (Inr media)
                    \<and> (code = 200 \<or> code = 201)
                    \<and> has_key (res ! n) ''media_id'' \<and> has_key (res ! n) ''media_url''
                    \<and> dget (res ! n) ''media_id'' = dget media ''id''
                    \<and> dget (res ! n) ''media_url'' = dget media ''source_url''))"
proof -
  let ?as = "get_color_analysis task_data"
  let ?res = "fst (publish_batch e ?as)"
  have pub: "\<exists>p code rtext media.
                dget (?as ! n) ''corrected_path'' = JStr p
                \<and> wp_post e p = PostReply code rtext (Inr media)
                \<and> (code = 200 \<or> code = 201)
                \<and> has_key (?res ! n) ''media_id'' \<and> has_key (?res ! n) ''media_url''
                \<and> dget (?res ! n) ''media_id'' = dget media ''id''
                \<and> dget (?res ! n) ''media_url'' = dget media ''source_url''"
    if "n < length ?res" and "is_published (?res ! n)" for n
  proof -
    from that have n: "n < length ?as" by (simp add: length_publish_batch)
    with that have eq: "?res ! n = fst (publish_photo e n (?as ! n))"
      by (simp add: nth_publish_batch skipped_entry_not_published split: if_splits)
    with that have "is_published (fst (publish_photo e n (?as ! n)))" by simp
    from publish_photo_published [OF this] show ?thesis
      unfolding eq by (auto simp: dget_def has_key_def)
  qed
  show ?thesis
    using assms pub
    by (simp add: publish_to_wordpress_commit publish_log_entry_def list_ex_iff)
qed

text \<open>
  The sample task with one corrected file that exists, WordPress configured and the
  upload answered with 201: the task becomes \<open>WORDPRESS_PUBLISHED\<close> at step 3.
\<close>

theorem publish_outcome_witness:
  "find_one_id [(ObjectId 1, task_corrected)] (ObjectId 1) = Some task_corrected
   \<and> db_update_error world_wp = None
   \<and> map_option wordpress_publish_results
        (find_one_id (fst (publish_to_wordpress world_wp [(ObjectId 1, task_corrected)]
                             (ObjectId 1) task_corrected)) (ObjectId 1))
      = Some (Some [[(''photo_index'', JInt 1), (''status'', JStr ''published''),
                     (''media_id'', JInt 7),
                     (''media_url'', JStr ''https://shop.example/a.jpg''),
                     (''file_path'', JStr ''/photos/a_color_corrected.jpg'')]])
   \<and> (\<exists>t'. find_one_id (fst (publish_to_wordpress world_wp [(ObjectId 1, task_corrected)]
                                 (ObjectId 1) task_corrected)) (ObjectId 1) = Some t'
            \<and> status t' = Some ''WORDPRESS_PUBLISHED''
            \<and> workflow_step t' = Some 3)"
proof -
  have h1: "find_one_id [(ObjectId 1, task_corrected)] (ObjectId 1) = Some task_corrected"
    by (simp add: find_one_id_def)
  have h2: "db_update_error world_wp = None"
    by (simp add: world_wp_def world0_def)
  have cfg: "WORDPRESS_URL world_wp = ''https://shop.example''"
    "WORDPRESS_USER world_wp = ''bot''" "WORDPRESS_PASSWORD world_wp = ''secret''"
    by (simp_all add: WORDPRESS_URL_def WORDPRESS_USER_def WORDPRESS_PASSWORD_def world_wp_def
          world0_def rstrip_slash_def)
  have a: "get_color_analysis task_corrected
             = [fst (analyze_photo world0 [] 0 ''/photos/a.jpg'')]"
    by (simp add: get_color_analysis_def task_corrected_def task0_def)
  have b: "dget (fst (analyze_photo world0 [] 0 ''/photos/a.jpg'')) ''corrected_path''
             = JStr ''/photos/a_color_corrected.jpg''"
    by code_simp
  have c: "upload_to_wordpress world_wp ''/photos/a_color_corrected.jpg'' =
             [(''success'', JBool True), (''media_id'', JInt 7),
              (''media_url'', JStr ''https://shop.example/a.jpg''), (''status_code'', JInt 201)]"
    by (simp add: upload_to_wordpress_def world_wp_def world0_def dget_def)
  have d: "path_exists world_wp ''/photos/a_color_corrected.jpg''"
    by (simp add: world_wp_def world0_def)
  have res: "fst (publish_batch world_wp (get_color_analysis task_corrected)) =
               [[(''photo_index'', JInt 1), (''status'', JStr ''published''),
                 (''media_id'', JInt 7),
                 (''media_url'', JStr ''https://shop.example/a.jpg''),
                 (''file_path'', JStr ''/photos/a_color_corrected.jpg'')]]"
    by (simp add: publish_batch_def cfg a publish_photo_JStr [OF b] c d dget_def)
  have pubd: "is_published [(''photo_index'', JInt 1), (''status'', JStr ''published''),
                 (''media_id'', JInt 7),
                 (''media_url'', JStr ''https://shop.example/a.jpg''),
                 (''file_path'', JStr ''/photos/a_color_corrected.jpg'')]"
    by (simp add: is_published_def dget_def)
  have r: "map_option wordpress_publish_results
        (find_one_id (fst (publish_to_wordpress world_wp [(ObjectId 1, task_corrected)]
                             (ObjectId 1) task_corrected)) (ObjectId 1))
      = Some (Some [[(''photo_index'', JInt 1), (''status'', JStr ''published''),
                     (''media_id'', JInt 7),
                     (''media_url'', JStr ''https://shop.example/a.jpg''),
                     (''file_path'', JStr ''/photos/a_color_corrected.jpg'')]])"
    unfolding publish_to_wordpress_commit [OF h2] h1 by (simp add: res pubd)
  from publish_outcome [OF h1 h2, of task_corrected] obtain t' res' where
    o: "find_one_id (fst (publish_to_wordpress world_wp [(ObjectId 1, task_corrected)]
                             (ObjectId 1) task_corrected)) (ObjectId 1) = Some t'"
       "wordpress_publish_results t' = Some res'"
       "status t' = Some (if (\<exists>r \<in> set res'. is_published r)
                                then ''WORDPRESS_PUBLISHED'' else ''PUBLISH_FAILED'')"
       "workflow_step t' = Some 3"
    by blast
  from r o(1,2) have "res' = [[(''photo_index'', JInt 1), (''status'', JStr ''published''),
                     (''media_id'', JInt 7),
                     (''media_url'', JStr ''https://shop.example/a.jpg''),
                     (''file_path'', JStr ''/photos/a_color_corrected.jpg'')]]"
    by simp
  with o(3) pubd have "status t' = Some ''WORDPRESS_PUBLISHED''" by simp
  with o(1,4) h1 h2 r show ?thesis by blast
qed

text \<open>
  Claim C4 as stated fails when the endpoint answers 200 with an object that has no
  \<open>id\<close> and no \<open>source_url\<close>: the entry is published and the task becomes
  \<open>WORDPRESS_PUBLISHED\<close>, with \<open>None\<close> for the media identifier and for the URL.
\<close>

theorem publish_outcome_counterexample:
  "wp_post world_wp_bare ''/photos/a_color_corrected.jpg'' = PostReply 200 [] (Inr [])
   \<and> db_update_error world_wp_bare = None
   \<and> map_option (\<lambda>t. (status t, wordpress_publish_results t))
        (find_one_id (fst (publish_to_wordpress world_wp_bare [(ObjectId 1, task_corrected)]
                             (ObjectId 1) task_corrected)) (ObjectId 1))
      = Some (Some ''WORDPRESS_PUBLISHED'',
              Some [[(''photo_index'', JInt 1), (''status'', JStr ''published''),
                     (''media_id'', JNone), (''media_url'', JNone),
                     (''file_path'', JStr ''/photos/a_color_corrected.jpg'')]])"
  by code_simp

subsection \<open>The shape of the analysis entries\<close>




subsection \<open>One existing and one missing file\<close>





subsection \<open>Missing WordPress settings and empty batches\<close>

text \<open>An unset variable reads as the empty string, which the handler takes as missing.\<close>

lemma unset_is_empty:
  "getenv e ''WORDPRESS_URL'' = None \<Longrightarrow> WORDPRESS_URL e = []"
  "getenv e ''WORDPRESS_USER'' = None \<Longrightarrow> WORDPRESS_USER e = []"
  "getenv e ''WORDPRESS_PASSWORD'' = None \<Longrightarrow> WORDPRESS_PASSWORD e = []"
  by (simp_all add: WORDPRESS_URL_def WORDPRESS_USER_def WORDPRESS_PASSWORD_def rstrip_slash_def)

lemma skipped_entry_status: "dget (skipped_entry idx) ''status'' = JStr ''skipped''"
  by (simp add: skipped_entry_def dget_def)

lemma publish_batch_unconfigured:
  assumes "WORDPRESS_URL e = [] \<or> WORDPRESS_USER e = [] \<or> WORDPRESS_PASSWORD e = []"
  shows "publish_batch e analyses = (map skipped_entry [0..<length analyses], [])"
  using assms by (simp add: publish_batch_def)

lemma no_published_skipped: "\<not> list_ex is_published (map skipped_entry ns)"
  by (simp add: list_ex_iff skipped_entry_not_published)

text \<open>
  Claim C7. When one of the three WordPress settings is missing (unset or empty), the
  publishing handler calls the upload for no entry and its result array is one
  \<open>skipped\<close> entry per analysis entry; and when its committing write succeeds, that array
  is what the task gets, with the status \<open>PUBLISH_FAILED\<close>.
\<close>

theorem unconfigured_skips_all:
  assumes "getenv e ''WORDPRESS_URL'' = None \<or> getenv e ''WORDPRESS_USER'' = None
           \<or> getenv e ''WORDPRESS_PASSWORD'' = None
           \<or> WORDPRESS_URL e = [] \<or> WORDPRESS_USER e = [] \<or> WORDPRESS_PASSWORD e = []"
  shows "snd (publish_to_wordpress e db task_id task_data) = []
         \<and> fst (publish_batch e (get_color_analysis task_data))
             = map skipped_entry [0..<length (get_color_analysis task_data)]
         \<and> (\<forall>r \<in> set (fst (publish_batch e (get_color_analysis task_data))).
               dget r ''status'' = JStr ''skipped'')
         \<and> (find_one_id db task_id = Some t \<and> db_update_error e = None \<longrightarrow>
              (\<exists>t'. find_one_id (fst (publish_to_wordpress e db task_id task_data)) task_id
                       = Some t'
                 \<and> wordpress_publish_results t'
                     = Some (map skipped_entry [0..<length (get_color_analysis task_data)])
                 \<and> status t' = Some ''PUBLISH_FAILED''))"
proof -
  from assms have un: "WORDPRESS_URL e = [] \<or> WORDPRESS_USER e = [] \<or> WORDPRESS_PASSWORD e = []"
    using unset_is_empty by blast
  note b = publish_batch_unconfigured [OF un]
  have 1: "snd (publish_to_wordpress e db task_id task_data) = []"
    by (simp add: publish_to_wordpress_uploads b)
  have 2: "\<forall>r \<in> set (fst (publish_batch e (get_color_analysis task_data))).
               dget r ''status'' = JStr ''skipped''"
    by (auto simp: b skipped_entry_status)
  have 3: "\<exists>t'. find_one_id (fst (publish_to_wordpress e db task_id task_data)) task_id
                       = Some t'
                 \<and> wordpress_publish_results t'
                     = Some (map skipped_entry [0..<length (get_color_analysis task_data)])
                 \<and> status t' = Some ''PUBLISH_FAILED''"
    if "find_one_id db task_id = Some t" "db_update_error e = None"
    using that by (simp add: publish_to_wordpress_commit b no_published_skipped)
  from 1 2 3 show ?thesis by (simp add: b)
qed

text \<open>
  The corrected sample task in the world without WordPress settings: one \<open>skipped\<close>
  entry, no upload call, \<open>PUBLISH_FAILED\<close>.
\<close>

theorem unconfigured_skips_all_witness:
  "getenv world0 ''WORDPRESS_URL'' = None
   \<and> find_one_id [(ObjectId 1, task_corrected)] (ObjectId 1) = Some task_corrected
   \<and> db_update_error world0 = None
   \<and> length (get_color_analysis task_corrected) = 1
   \<and> snd (publish_to_wordpress world0 [(ObjectId 1, task_corrected)] (ObjectId 1)
             task_corrected) = []
   \<and> (\<exists>t'. find_one_id (fst (publish_to_wordpress world0 [(ObjectId 1, task_corrected)]
                                 (ObjectId 1) task_corrected)) (ObjectId 1) = Some t'
         \<and> wordpress_publish_results t' = Some [skipped_entry 0]
         \<and> status t' = Some ''PUBLISH_FAILED'')"
proof -
  have h0: "getenv world0 ''WORDPRESS_URL'' = None"
    by (simp add: world0_def)
  have h1: "find_one_id [(ObjectId 1, task_corrected)] (ObjectId 1) = Some task_corrected"
    by (simp add: find_one_id_def)
  have h2: "db_update_error world0 = None"
    by (simp add: world0_def)
  have n: "length (get_color_analysis task_corrected) = 1"
    by (simp add: get_color_analysis_def task_corrected_def task0_def)
  have m: "map skipped_entry [0..<length (get_color_analysis task_corrected)] = [skipped_entry 0]"
    by (simp add: n)
  from h0 have h: "getenv world0 ''WORDPRESS_URL'' = None \<or> getenv world0 ''WORDPRESS_USER'' = None
           \<or> getenv world0 ''WORDPRESS_PASSWORD'' = None
           \<or> WORDPRESS_URL world0 = [] \<or> WORDPRESS_USER world0 = []
           \<or> WORDPRESS_PASSWORD world0 = []"
    by blast
  from unconfigured_skips_all [OF h, of "[(ObjectId 1, task_corrected)]" "ObjectId 1"
         task_corrected task_corrected] h0 h1 h2 n
  show ?thesis
    unfolding m by blast
qed

text \<open>
  Claim C10. For a task whose \<open>color_analysis\<close> is empty (or missing, which the handler
  reads as empty), the publishing handler makes no upload call, and when its committing
  write succeeds the task gets the empty result array and the status \<open>PUBLISH_FAILED\<close>,
  whether or not WordPress is configured.
\<close>

theorem empty_analysis_fails:
  assumes "get_color_analysis task_data = []"
    and "find_one_id db task_id = Some t" and "db_update_error e = None"
  shows "snd (publish_to_wordpress e db task_id task_data) = []
         \<and> (\<exists>t'. find_one_id (fst (publish_to_wordpress e db task_id task_data)) task_id
                    = Some t'
               \<and> wordpress_publish_results t' = Some []
               \<and> status t' = Some ''PUBLISH_FAILED''
               \<and> status t' \<noteq> Some ''WORDPRESS_PUBLISHED'')"
proof -
  have b: "publish_batch e [] = ([], [])"
    by (simp add: publish_batch_def)
  show ?thesis
    using assms by (simp add: publish_to_wordpress_uploads publish_to_wordpress_commit b)
qed

text \<open>The empty sample task, with WordPress configured and without.\<close>

theorem empty_analysis_fails_witness:
  "get_color_analysis task_empty = []
   \<and> find_one_id [(ObjectId 1, task_empty)] (ObjectId 1) = Some task_empty
   \<and> db_update_error world_wp = None \<and> db_update_error world0 = None
   \<and> WORDPRESS_URL world_wp \<noteq> [] \<and> WORDPRESS_USER world_wp \<noteq> []
   \<and> WORDPRESS_PASSWORD world_wp \<noteq> [] \<and> WORDPRESS_URL world0 = []
   \<and> (\<exists>t'. find_one_id (fst (publish_to_wordpress world_wp [(ObjectId 1, task_empty)]
                                 (ObjectId 1) task_empty)) (ObjectId 1) = Some t'
         \<and> wordpress_publish_results t' = Some []
         \<and> status t' = Some ''PUBLISH_FAILED'')
   \<and> (\<exists>t'. find_one_id (fst (publish_to_wordpress world0 [(ObjectId 1, task_empty)]
                                 (ObjectId 1) task_empty)) (ObjectId 1) = Some t'
         \<and> wordpress_publish_results t' = Some []
         \<and> status t' = Some ''PUBLISH_FAILED'')"
proof -
  have h0: "get_color_analysis task_empty = []"
    by (simp add: get_color_analysis_def task_empty_def)
  have h1: "find_one_id [(ObjectId 1, task_empty)] (ObjectId 1) = Some task_empty"
    by (simp add: find_one_id_def)
  have h2: "db_update_error world_wp = None" and h3: "db_update_error world0 = None"
    by (simp_all add: world_wp_def world0_def)
  have cfg: "WORDPRESS_URL world_wp \<noteq> []" "WORDPRESS_USER world_wp \<noteq> []"
    "WORDPRESS_PASSWORD world_wp \<noteq> []" "WORDPRESS_URL world0 = []"
    by (simp_all add: WORDPRESS_URL_def WORDPRESS_USER_def WORDPRESS_PASSWORD_def world_wp_def
          world0_def rstrip_slash_def)
  from empty_analysis_fails [OF h0 h1 h2] empty_analysis_fails [OF h0 h1 h3] h0 h1 h2 h3 cfg
  show ?thesis by blast
qed


subsection \<open>Dispatch on the current status\<close>

text \<open>The dispatcher invokes a handler only on the status that triggers it.\<close>

lemma process_change_invoked:
  assumes "fst (snd (process_change e db ch)) = Some h"
  shows "\<exists>task_id t. documentKey_id ch = Some task_id \<and> db_find_error e = None
           \<and> find_one_id db task_id = Some t \<and> status t = Some (trigger h)"
  using assms
  by (auto simp: process_change_def Let_def
        split: option.splits if_splits prod.splits)

lemma process_change_skip:
  assumes "documentKey_id ch = None \<or> db_find_error e \<noteq> None
           \<or> (\<exists>task_id. documentKey_id ch = Some task_id
                 \<and> (find_one_id db task_id = None
                    \<or> (\<exists>t. find_one_id db task_id = Some t
                          \<and> status t \<noteq> Some ''PHOTOS_UPLOADED''
                          \<and> status t \<noteq> Some ''COLOR_CORRECTED'')))"
  shows "process_change e db ch = (db, None, [])"
  using assms
  by (auto simp: process_change_def Let_def split: option.splits)

lemma process_change_2a:
  assumes "documentKey_id ch = Some task_id" and "db_find_error e = None"
    and "find_one_id db task_id = Some t" and "status t = Some ''PHOTOS_UPLOADED''"
  shows "process_change e db ch = (color_correct_agent e db task_id t, Some Agent2A, [])"
  using assms by (simp add: process_change_def)

lemma process_change_2b:
  assumes "documentKey_id ch = Some task_id" and "db_find_error e = None"
    and "find_one_id db task_id = Some t" and "status t = Some ''COLOR_CORRECTED''"
  shows "process_change e db ch =
           (fst (publish_to_wordpress e db task_id t), Some Agent2B,
            snd (publish_to_wordpress e db task_id t))"
  using assms by (simp add: process_change_def split: prod.splits)

text \<open>
  Claim C8. An event without a task id, an event whose task is not in the store, and an
  event whose task has no status or a status other than \<open>PHOTOS_UPLOADED\<close> and
  \<open>COLOR_CORRECTED\<close> (so \<open>INITIATED\<close>, the two final states and any unknown one) leave
  the store as it is, invoke no handler and make no upload call. A handler is invoked
  only when the re-read status is the one that triggers it, so not when the status is
  past it. After a delivery whose handler committed, a second delivery of the same
  event, in any world, does not invoke that handler again.
\<close>

theorem dispatch_by_current_status:
  "(documentKey_id ch = None \<longrightarrow> process_change e db ch = (db, None, []))
   \<and> (\<forall>task_id. documentKey_id ch = Some task_id \<and> find_one_id db task_id = None
         \<longrightarrow> process_change e db ch = (db, None, []))
   \<and> (\<forall>task_id t. documentKey_id ch = Some task_id \<and> find_one_id db task_id = Some t
         \<and> status t \<noteq> Some ''PHOTOS_UPLOADED'' \<and> status t \<noteq> Some ''COLOR_CORRECTED''
         \<longrightarrow> process_change e db ch = (db, None, []))
   \<and> (\<forall>task_id t h. documentKey_id ch = Some task_id \<and> find_one_id db task_id = Some t
         \<and> fst (snd (process_change e db ch)) = Some h
         \<longrightarrow> status t = Some (trigger h))
   \<and> (\<forall>task_id t h m n. documentKey_id ch = Some task_id \<and> find_one_id db task_id = Some t
         \<and> stage (Some (trigger h)) = Some m \<and> stage (status t) = Some n \<and> m < n
         \<longrightarrow> fst (snd (process_change e db ch)) \<noteq> Some h)
   \<and> (\<forall>h e2. fst (snd (process_change e db ch)) = Some h \<and> db_update_error e = None
         \<longrightarrow> fst (snd (process_change e2 (fst (process_change e db ch)) ch)) \<noteq> Some h)"
proof (intro conjI allI impI)
  assume "documentKey_id ch = None"
  then show "process_change e db ch = (db, None, [])"
    by (simp add: process_change_skip)
next
  fix task_id
  assume "documentKey_id ch = Some task_id \<and> find_one_id db task_id = None"
  then show "process_change e db ch = (db, None, [])"
    by (simp add: process_change_skip)
next
  fix task_id t
  assume "documentKey_id ch = Some task_id \<and> find_one_id db task_id = Some t
         \<and> status t \<noteq> Some ''PHOTOS_UPLOADED'' \<and> status t \<noteq> Some ''COLOR_CORRECTED''"
  then show "process_change e db ch = (db, None, [])"
    by (simp add: process_change_skip)
next
  fix task_id t h
  assume "documentKey_id ch = Some task_id \<and> find_one_id db task_id = Some t
         \<and> fst (snd (process_change e db ch)) = Some h"
  with process_change_invoked [of e db ch h] show "status t = Some (trigger h)"
    by auto
next
  fix task_id t h m n
  assume a: "documentKey_id ch = Some task_id \<and> find_one_id db task_id = Some t
         \<and> stage (Some (trigger h)) = Some m \<and> stage (status t) = Some n \<and> m < n"
  show "fst (snd (process_change e db ch)) \<noteq> Some h"
  proof
    assume "fst (snd (process_change e db ch)) = Some h"
    with process_change_invoked [of e db ch h] a have "status t = Some (trigger h)"
      by auto
    with a show False by auto
  qed
next
  fix h e2
  assume a: "fst (snd (process_change e db ch)) = Some h \<and> db_update_error e = None"
  then obtain task_id t where
    t: "documentKey_id ch = Some task_id" "db_find_error e = None"
       "find_one_id db task_id = Some t" "status t = Some (trigger h)"
    using process_change_invoked [of e db ch h] by blast
  have after: "\<exists>t'. find_one_id (fst (process_change e db ch)) task_id = Some t'
                 \<and> status t' \<noteq> Some (trigger h)"
  proof (cases h)
    case Agent2A
    with t a show ?thesis
      by (simp add: process_change_2a color_correct_agent_commit)
  next
    case Agent2B
    with t a show ?thesis
      by (simp add: process_change_2b publish_to_wordpress_commit)
  qed
  show "fst (snd (process_change e2 (fst (process_change e db ch)) ch)) \<noteq> Some h"
  proof
    assume "fst (snd (process_change e2 (fst (process_change e db ch)) ch)) = Some h"
    from process_change_invoked [OF this] t(1) after show False
      by auto
  qed
qed


text \<open>
  Two deliveries of the same event for the sample task: the first runs Agent 2A, which
  commits; the second does not run it again.
\<close>

theorem dispatch_by_current_status_witness:
  "fst (snd (process_change world0 [(ObjectId 1, task0)] change1)) = Some Agent2A
   \<and> db_update_error world0 = None
   \<and> fst (snd (process_change world_wp
                 (fst (process_change world0 [(ObjectId 1, task0)] change1)) change1))
       \<noteq> Some Agent2A"
proof -
  have k: "documentKey_id change1 = Some (ObjectId 1)"
    by (simp add: change1_def)
  have f: "db_find_error world0 = None" and u: "db_update_error world0 = None"
    by (simp_all add: world0_def)
  have t: "find_one_id [(ObjectId 1, task0)] (ObjectId 1) = Some task0"
    by (simp add: find_one_id_def)
  have s: "status task0 = Some ''PHOTOS_UPLOADED''"
    by (simp add: task0_def)
  have a: "fst (snd (process_change world0 [(ObjectId 1, task0)] change1)) = Some Agent2A"
    unfolding process_change_2a [OF k f t s] by simp
  from dispatch_by_current_status [of change1 world0 "[(ObjectId 1, task0)]"] a u
  show ?thesis by blast
qed

subsection \<open>Reconnecting with backoff\<close>

lemma map_upt_Suc_shift: "map f [0..<Suc n] = f 0 # map (\<lambda>k. f (Suc k)) [0..<n]"
  by (simp add: upt_rec [of 0] map_Suc_upt [symmetric] del: upt_Suc)

text \<open>Consecutive failures of \<open>watch\<close> below the ceiling: one doubling sleep each.\<close>

lemma agent_loop_failures:
  "retry_count + length errs < max_retries \<Longrightarrow>
   agent_loop retry_count db (map WatchFailed errs @ rest) =
     (case agent_loop (retry_count + length errs) db rest of
        (acts, db', st) \<Rightarrow>
          (map (\<lambda>k. Sleep (2 ^ (retry_count + Suc k))) [0..<length errs] @ acts, db', st))"
proof (induction errs arbitrary: retry_count)
  case Nil
  then show ?case by (simp split: prod.splits)
next
  case (Cons err errs)
  from Cons.prems have lt: "retry_count < max_retries" "Suc retry_count < max_retries"
    and ih: "Suc retry_count + length errs < max_retries"
    by simp_all
  show ?case
    using lt Cons.IH [OF ih]
    by (simp add: map_upt_Suc_shift Let_def split: prod.splits del: upt_Suc)
qed

text \<open>The failure that reaches the ceiling ends the loop.\<close>

lemma agent_loop_last_failure:
  "Suc retry_count = max_retries \<Longrightarrow>
   agent_loop retry_count db (WatchFailed err # rest) = ([LogFatal], db, ShutDown)"
  by (simp add: Let_def)

text \<open>
  Claim C9. From a counter \<open>retry_count\<close> below the ceiling of 5, consecutive failures
  of \<open>watch\<close> that stay below the ceiling are each followed by a sleep of
  \<open>2 ^ (retry_count + k)\<close> for the \<open>k\<close>-th of them, so 2, 4, 8, 16 from a fresh counter,
  and the loop goes on with what the world provides next. The failure that brings the
  counter to 5 is followed by no sleep: the loop logs the fatal line and ends, whatever
  the world would have provided next. A stream that opens sets the counter to 0,
  whatever it was: when it ends quietly the loop goes on from 0; when it is lost after
  its events, that is the first failure again, so the loop sleeps 2 and goes on from 1;
  an interrupt ends the loop without a sleep.
\<close>

theorem reconnect_backoff:
  "max_retries = 5
   \<and> (retry_count < max_retries \<longrightarrow>
        agent_loop retry_count db [] = ([], db, Running retry_count))
   \<and> (retry_count + length errs < max_retries \<longrightarrow>
        agent_loop retry_count db (map WatchFailed errs @ rest) =
          (case agent_loop (retry_count + length errs) db rest of
             (acts, db', st) \<Rightarrow>
               (map (\<lambda>k. Sleep (2 ^ (retry_count + Suc k))) [0..<length errs] @ acts,
                db', st))
        \<and> agent_loop retry_count db (map WatchFailed errs) =
          (map (\<lambda>k. Sleep (2 ^ (retry_count + Suc k))) [0..<length errs], db,
           Running (retry_count + length errs)))
   \<and> (retry_count + length errs + 1 = max_retries \<longrightarrow>
        agent_loop retry_count db (map WatchFailed errs @ WatchFailed err # rest) =
          (map (\<lambda>k. Sleep (2 ^ (retry_count + Suc k))) [0..<length errs] @ [LogFatal], db,
           ShutDown))
   \<and> (retry_count < max_retries \<longrightarrow>
        agent_loop retry_count db (Watched events Exhausted # rest)
          = agent_loop 0 (process_changes db events) rest
        \<and> agent_loop retry_count db [Watched events Exhausted]
          = ([], process_changes db events, Running 0)
        \<and> agent_loop retry_count db (Watched events (Lost err) # rest)
          = agent_loop 0 db (Watched events (Lost err) # rest)
        \<and> agent_loop retry_count db (Watched events (Lost err) # rest)
          = (case agent_loop 1 (process_changes db events) rest of
               (acts, db', st) \<Rightarrow> (Sleep 2 # acts, db', st))
        \<and> agent_loop retry_count db [Watched events (Lost err)]
          = ([Sleep 2], process_changes db events, Running 1)
        \<and> agent_loop retry_count db (Watched events Interrupted # rest)
          = ([LogStopping], process_changes db events, ShutDown))"
proof (intro conjI impI)
  show "max_retries = 5" by (simp add: max_retries_def)
next
  assume "retry_count < max_retries"
  then show "agent_loop retry_count db [] = ([], db, Running retry_count)"
    by simp
next
  assume a: "retry_count + length errs < max_retries"
  then show "agent_loop retry_count db (map WatchFailed errs @ rest) =
          (case agent_loop (retry_count + length errs) db rest of
             (acts, db', st) \<Rightarrow>
               (map (\<lambda>k. Sleep (2 ^ (retry_count + Suc k))) [0..<length errs] @ acts,
                db', st))"
    by (rule agent_loop_failures)
next
  assume a: "retry_count + length errs < max_retries"
  from agent_loop_failures [OF a, of db "[]"] a
  show "agent_loop retry_count db (map WatchFailed errs) =
          (map (\<lambda>k. Sleep (2 ^ (retry_count + Suc k))) [0..<length errs], db,
           Running (retry_count + length errs))"
    by simp
next
  assume a: "retry_count + length errs + 1 = max_retries"
  then have lt: "retry_count + length errs < max_retries"
    and l: "Suc (retry_count + length errs) = max_retries"
    by simp_all
  show "agent_loop retry_count db (map WatchFailed errs @ WatchFailed err # rest) =
          (map (\<lambda>k. Sleep (2 ^ (retry_count + Suc k))) [0..<length errs] @ [LogFatal], db,
           ShutDown)"
    unfolding agent_loop_failures [OF lt] agent_loop_last_failure [OF l] by simp
next
  assume "retry_count < max_retries"
  then show "agent_loop retry_count db (Watched events Exhausted # rest)
          = agent_loop 0 (process_changes db events) rest"
    by simp
next
  assume "retry_count < max_retries"
  then show "agent_loop retry_count db [Watched events Exhausted]
          = ([], process_changes db events, Running 0)"
    by (simp add: max_retries_def)
next
  assume "retry_count < max_retries"
  then show "agent_loop retry_count db (Watched events (Lost err) # rest)
          = agent_loop 0 db (Watched events (Lost err) # rest)"
    by (simp add: max_retries_def)
next
  assume "retry_count < max_retries"
  then show "agent_loop retry_count db (Watched events (Lost err) # rest)
          = (case agent_loop 1 (process_changes db events) rest of
               (acts, db', st) \<Rightarrow> (Sleep 2 # acts, db', st))"
    by (simp add: max_retries_def Let_def)
next
  assume "retry_count < max_retries"
  then show "agent_loop retry_count db [Watched events (Lost err)]
          = ([Sleep 2], process_changes db events, Running 1)"
    by (simp add: max_retries_def Let_def)
next
  assume "retry_count < max_retries"
  then show "agent_loop retry_count db (Watched events Interrupted # rest)
          = ([LogStopping], process_changes db events, ShutDown)"
    by simp
qed

text \<open>
  Three failures and then a stream that opens: sleeps of 2, 4 and 8, and the counter is
  0 again. Five failures: sleeps of 2, 4, 8 and 16, the fatal line, and the loop has
  ended although the world had a working stream next. A stream that is lost, a failure
  to open the next one, and a stream that opens: sleeps of 2 and 4, and the counter is 0.
\<close>

theorem reconnect_backoff_witness:
  "agent_loop 0 [] (map WatchFailed [''down'', ''down'', ''down''])
     = ([Sleep 2, Sleep 4, Sleep 8], [], Running 3)
   \<and> agent_loop 3 [] [Watched [] Exhausted] = ([], [], Running 0)
   \<and> agent_loop 0 []
        [WatchFailed ''down'', WatchFailed ''down'', WatchFailed ''down'',
         Watched [] Exhausted]
     = ([Sleep 2, Sleep 4, Sleep 8], [], Running 0)
   \<and> agent_loop 0 []
        (map WatchFailed [''down'', ''down'', ''down'', ''down''] @ WatchFailed ''down''
           # [Watched [] Exhausted])
     = ([Sleep 2, Sleep 4, Sleep 8, Sleep 16, LogFatal], [], ShutDown)
   \<and> agent_loop 3 [] [Watched [] (Lost ''reset'')] = ([Sleep 2], [], Running 1)
   \<and> agent_loop 0 []
        [Watched [] (Lost ''reset''), WatchFailed ''down'', Watched [] Exhausted]
     = ([Sleep 2, Sleep 4], [], Running 0)"
proof -
  have m: "max_retries = 5" by (simp add: max_retries_def)
  have 1: "agent_loop 0 [] (map WatchFailed [''down'', ''down'', ''down''])
     = ([Sleep 2, Sleep 4, Sleep 8], [], Running 3)"
    using reconnect_backoff
            [where retry_count = 0 and db = "[]" and errs = "[''down'', ''down'', ''down'']"
               and rest = "[]"]
    by (simp add: m upt_rec)
  have 2: "agent_loop 3 [] [Watched [] Exhausted] = ([], [], Running 0)"
    using reconnect_backoff
            [where retry_count = 3 and db = "[]" and errs = "[]" and rest = "[]"
               and events = "[]"]
    by (simp add: m)
  have 3: "agent_loop 0 []
        [WatchFailed ''down'', WatchFailed ''down'', WatchFailed ''down'',
         Watched [] Exhausted]
     = ([Sleep 2, Sleep 4, Sleep 8], [], Running 0)"
    by code_simp
  have 4: "agent_loop 0 []
        (map WatchFailed [''down'', ''down'', ''down'', ''down''] @ WatchFailed ''down''
           # [Watched [] Exhausted])
     = ([Sleep 2, Sleep 4, Sleep 8, Sleep 16, LogFatal], [], ShutDown)"
    using reconnect_backoff
            [where retry_count = 0 and db = "[]"
               and errs = "[''down'', ''down'', ''down'', ''down'']"
               and rest = "[Watched [] Exhausted]" and err = "''down''"]
    by (simp add: m upt_rec)
  have 5: "agent_loop 3 [] [Watched [] (Lost ''reset'')] = ([Sleep 2], [], Running 1)"
    using reconnect_backoff
            [where retry_count = 3 and db = "[]" and errs = "[]" and rest = "[]"
               and events = "[]" and err = "''reset''"]
    by (simp add: m)
  have 6: "agent_loop 0 []
        [Watched [] (Lost ''reset''), WatchFailed ''down'', Watched [] Exhausted]
     = ([Sleep 2, Sleep 4], [], Running 0)"
    by code_simp
  from 1 2 3 4 5 6 show ?thesis by blast
qed

subsection \<open>The order of the status values\<close>





lemma record_failure_absent:
  "find_one_id db k = None \<Longrightarrow> find_one_id (record_failure e db task_id err) k = None"
  by (auto simp: find_one_id_record_failure)



lemma process_change_absent:
  assumes "find_one_id db k = None"
  shows "find_one_id (fst (process_change e db ch)) k = None"
proof (cases "fst (snd (process_change e db ch))")
  case None
  then have "process_change e db ch = (db, None, [])"
    by (auto simp: process_change_def Let_def split: option.splits if_splits prod.splits)
  with assms show ?thesis by simp
next
  case (Some h)
  from process_change_invoked [OF Some] obtain task_id t0 where
    i: "documentKey_id ch = Some task_id" "db_find_error e = None"
       "find_one_id db task_id = Some t0" "status t0 = Some (trigger h)"
    by blast
  show ?thesis
  proof (cases h)
    case Agent2A
    with i have pc: "fst (process_change e db ch) = color_correct_agent e db task_id t0"
      by (simp add: process_change_2a)
    show ?thesis
      unfolding pc using assms i
      by (cases "db_update_error e")
         (auto simp: color_correct_agent_commit color_correct_agent_failure
            record_failure_absent)
  next
    case Agent2B
    with i have pc: "fst (process_change e db ch) = fst (publish_to_wordpress e db task_id t0)"
      by (simp add: process_change_2b)
    show ?thesis
      unfolding pc using assms i
      by (cases "db_update_error e")
         (auto simp: publish_to_wordpress_commit publish_to_wordpress_failure
            record_failure_absent)
  qed
qed






















end
